theory Spec2Isabelle
  imports Main
begin

section \<open>Python values used by the two readers\<close>

text \<open>
  The exceptions that the modelled code can raise. \<open>OSError\<close> is what
  \<^verbatim>\<open>nc.Dataset(path, mode='r')\<close> raises for a path it cannot open, \<open>KeyError\<close> is a
  failed dictionary subscript (\<^verbatim>\<open>dataset.variables[...]\<close>, \<^verbatim>\<open>dataset.dimensions[...]\<close>),
  \<open>IndexError\<close> a failed \<^verbatim>\<open>dataset[...]\<close> lookup or an out-of-range row,
  \<open>UnicodeDecodeError\<close> a strict \<^verbatim>\<open>bytes.decode("utf-8")\<close> on an invalid byte and
  \<open>TypeError\<close> is \<^verbatim>\<open>len()\<close> of a zero-dimensional array.
\<close>

datatype error =
    OSError string
  | KeyError string
  | IndexError string
  | UnicodeDecodeError char
  | TypeError

text \<open>Decimal rendering of a non-negative integer, as an f-string prints \<^verbatim>\<open>{i+1}\<close>.\<close>

definition digit_char :: "nat \<Rightarrow> char" where
  "digit_char d = ''0123456789'' ! (d mod 10)"

fun str_nat :: "nat \<Rightarrow> string" where
  "str_nat n = (if n < 10 then [digit_char n] else str_nat (n div 10) @ [digit_char (n mod 10)])"

declare str_nat.simps [simp del]

text \<open>
  \<^verbatim>\<open>str.strip()\<close> without arguments removes leading and trailing whitespace; in the
  8-bit range Python's whitespace characters are 9..13, 28..32, 133 and 160.
\<close>

definition isspace :: "char \<Rightarrow> bool" where
  "isspace c = (let n = (of_char c :: nat) in
     (9 \<le> n \<and> n \<le> 13) \<or> (28 \<le> n \<and> n \<le> 32) \<or> n = 133 \<or> n = 160)"

definition strip :: "string \<Rightarrow> string" where
  "strip s = rev (dropWhile isspace (rev (dropWhile isspace s)))"

subsection \<open>Name rows: masked arrays of code units\<close>

text \<open>
  A name table is a two-dimensional character variable. One row is a fixed-width masked
  array; every position carries its mask flag (\<open>True\<close>: masked, that is invalid or
  padding) and its element. An element is either a one-byte \<^verbatim>\<open>np.bytes_\<close> scalar, given
  by the byte that \<^verbatim>\<open>tobytes()\<close> returns, or any other scalar, given by its \<^verbatim>\<open>str(c)\<close>.
\<close>

datatype code_unit = Bytes char | Scalar string

type_synonym name_row = "(bool \<times> code_unit) list"

definition is_masked :: "name_row \<Rightarrow> bool" where
  "is_masked row = list_ex fst row"

definition compressed :: "name_row \<Rightarrow> code_unit list" where
  "compressed row = map snd (filter (\<lambda>c. \<not> fst c) row)"

definition elements :: "name_row \<Rightarrow> code_unit list" where
  "elements row = map snd row"

text \<open>
  \<^verbatim>\<open>c.tobytes().decode("utf-8")\<close> on one byte: a byte below 128 is the character itself,
  any other single byte is not valid UTF-8. With \<^verbatim>\<open>errors="ignore"\<close> the invalid byte
  is dropped instead.
\<close>

definition decode_utf8 :: "char \<Rightarrow> error + string" where
  "decode_utf8 b = (if (of_char b :: nat) < 128 then Inr [b] else Inl (UnicodeDecodeError b))"

definition decode_utf8_ignore :: "char \<Rightarrow> error + string" where
  "decode_utf8_ignore b = (if (of_char b :: nat) < 128 then Inr [b] else Inr [])"

text \<open>
  \<^verbatim>\<open>"".join(f(c) if isinstance(c, np.bytes_) else str(c) for c in name_bytes)\<close>:
  the generator is consumed left to right and the first exception ends it.
\<close>

fun join_units :: "(char \<Rightarrow> error + string) \<Rightarrow> code_unit list \<Rightarrow> error + string" where
  "join_units dec [] = Inr []"
| "join_units dec (Bytes b # cs) =
     (case dec b of
        Inl e \<Rightarrow> Inl e
      | Inr s \<Rightarrow> (case join_units dec cs of Inl e \<Rightarrow> Inl e | Inr t \<Rightarrow> Inr (s @ t)))"
| "join_units dec (Scalar s # cs) =
     (case join_units dec cs of Inl e \<Rightarrow> Inl e | Inr t \<Rightarrow> Inr (s @ t))"

subsection \<open>Numeric arrays\<close>

text \<open>
  A numeric array as netCDF4 hands it out: its shape, its items in storage order and, per
  item, the mask flag of the masked array (\<open>True\<close>: a missing value; a plain array has
  no flag set). The item type is any type with a zero. \<^verbatim>\<open>np.array([0])\<close>,
  \<^verbatim>\<open>np.zeros_like(x)\<close> and \<^verbatim>\<open>len(x)\<close> are the only array operations the reader uses.
  \<^verbatim>\<open>np.zeros_like\<close> sets the data to zero and keeps shape and mask. \<open>tolist\<close> is the
  array as it reads, element by element: \<open>None\<close> for a masked element.
\<close>

record 'a ndarray =
  shape :: "nat list"
  items :: "'a list"
  mask :: "bool list"

definition plain :: "nat list \<Rightarrow> 'a list \<Rightarrow> 'a ndarray" where
  "plain sh xs = \<lparr>shape = sh, items = xs, mask = map (\<lambda>_. False) xs\<rparr>"

definition np_array :: "'a list \<Rightarrow> 'a ndarray" where
  "np_array xs = plain [length xs] xs"

definition zeros_like :: "'a::zero ndarray \<Rightarrow> 'a ndarray" where
  "zeros_like a = \<lparr>shape = shape a, items = map (\<lambda>_. 0) (items a), mask = mask a\<rparr>"

definition tolist :: "'a ndarray \<Rightarrow> 'a option list" where
  "tolist a = map (\<lambda>(m, v). if m then None else Some v) (zip (mask a) (items a))"

definition len :: "'a ndarray \<Rightarrow> error + nat" where
  "len a = (case shape a of [] \<Rightarrow> Inl TypeError | n # _ \<Rightarrow> Inr n)"

section \<open>Files, datasets and the outside world\<close>

text \<open>
  The content of one Exodus II file as netCDF4 presents it: the declared dimensions, the
  numeric variables, and the three character name tables (\<open>None\<close>: the variable is not in
  the file). The name tables are the only variables whose elements the code inspects.
\<close>

record 'a dataset =
  dimensions :: "string \<rightharpoonup> nat"
  variables :: "string \<rightharpoonup> 'a ndarray"
  name_glo_var :: "name_row list option"
  name_nod_var :: "name_row list option"
  name_elem_var :: "name_row list option"

text \<open>
  The world a call runs in: the files on disk by path, the paths of the dataset handles
  that are open, and the lines printed so far.
\<close>

record 'a world =
  files :: "string \<rightharpoonup> 'a dataset"
  open_handles :: "string list"
  stdout :: "string list"

definition Dataset :: "string \<Rightarrow> 'a world \<Rightarrow> (error + 'a dataset) \<times> 'a world" where
  "Dataset file_path w =
     (case files w file_path of
        None \<Rightarrow> (Inl (OSError file_path), w)
      | Some ds \<Rightarrow> (Inr ds, w\<lparr>open_handles := file_path # open_handles w\<rparr>))"

definition close :: "string \<Rightarrow> 'a world \<Rightarrow> 'a world" where
  "close file_path w = w\<lparr>open_handles := remove1 file_path (open_handles w)\<rparr>"

definition print :: "string \<Rightarrow> 'a world \<Rightarrow> 'a world" where
  "print line w = w\<lparr>stdout := stdout w @ [line]\<rparr>"

text \<open>\<^verbatim>\<open>dataset.variables[name][:]\<close> and \<^verbatim>\<open>dataset["name_nod_var"][i, :]\<close>.\<close>

definition variables_getitem :: "'a dataset \<Rightarrow> string \<Rightarrow> error + 'a ndarray" where
  "variables_getitem dataset name =
     (case variables dataset name of None \<Rightarrow> Inl (KeyError name) | Some v \<Rightarrow> Inr v)"

definition name_nod_var_row :: "'a dataset \<Rightarrow> nat \<Rightarrow> error + name_row" where
  "name_nod_var_row dataset i =
     (case name_nod_var dataset of
        None \<Rightarrow> Inl (IndexError ''name_nod_var not found in /'')
      | Some rows \<Rightarrow>
          if i < length rows then Inr (rows ! i)
          else Inl (IndexError ''index exceeds dimension bounds''))"

section \<open>nodal\_variables\_from\_efile.py: read\_exodus\_file\<close>

record 'a extracted_data =
  time_steps :: "'a ndarray"
  coordinates :: "'a ndarray \<times> 'a ndarray \<times> 'a ndarray"
  nodal_data :: "string \<rightharpoonup> 'a ndarray"
  nodal_vars :: "string list"
  mesh_shape :: "nat \<times> nat option"

text \<open>Line 14: the time steps, or \<^verbatim>\<open>np.array([0])\<close> when \<^verbatim>\<open>time_whole\<close> is not a variable.\<close>

definition read_time_steps :: "'a::zero dataset \<Rightarrow> 'a ndarray" where
  "read_time_steps dataset =
     (case variables dataset ''time_whole'' of Some t \<Rightarrow> t | None \<Rightarrow> np_array [0])"

text \<open>Lines 27-28: one name row, decoded strictly.\<close>

definition name_str :: "name_row \<Rightarrow> error + string" where
  "name_str row =
     (let name_bytes = (if is_masked row then compressed row else elements row) in
      case join_units decode_utf8 name_bytes of
        Inl e \<Rightarrow> Inl e
      | Inr s \<Rightarrow> Inr (strip s))"

text \<open>Lines 25-29: the loop over \<^verbatim>\<open>range(num_nod_var)\<close>; the first exception leaves it.\<close>

fun read_names :: "'a dataset \<Rightarrow> nat list \<Rightarrow> string list \<Rightarrow> error + string list" where
  "read_names dataset [] nod_var_names = Inr nod_var_names"
| "read_names dataset (i # rest) nod_var_names =
     (case name_nod_var_row dataset i of
        Inl e \<Rightarrow> Inl e
      | Inr row \<Rightarrow>
          (case name_str row of
             Inl e \<Rightarrow> Inl e
           | Inr s \<Rightarrow> read_names dataset rest (nod_var_names @ [s])))"

text \<open>Lines 32-38: the loop over \<^verbatim>\<open>enumerate(nod_var_names)\<close>.\<close>

definition vals_name :: "nat \<Rightarrow> string" where
  "vals_name i = ''vals_nod_var'' @ str_nat (i + 1)"

definition warning :: "string \<Rightarrow> string" where
  "warning var_name =
     ''Warning: Variable '' @ [CHR 0x27] @ var_name @ [CHR 0x27] @ '' not found in dataset.''"

fun read_values ::
  "'a dataset \<Rightarrow> (nat \<times> string) list \<Rightarrow> (string \<rightharpoonup> 'a ndarray) \<times> 'a world
     \<Rightarrow> (string \<rightharpoonup> 'a ndarray) \<times> 'a world" where
  "read_values dataset [] (node_data, w) = (node_data, w)"
| "read_values dataset ((i, name) # rest) (node_data, w) =
     (let var_name = vals_name i in
      case variables dataset var_name of
        Some v \<Rightarrow> read_values dataset rest (node_data(name \<mapsto> v), w)
      | None \<Rightarrow> read_values dataset rest (node_data, print (warning var_name) w))"

definition read_exodus_file ::
  "string \<Rightarrow> 'a::zero world \<Rightarrow> (error + 'a extracted_data) \<times> 'a world" where
  "read_exodus_file file_path w0 =
     (case Dataset file_path w0 of
        (Inl e, w) \<Rightarrow> (Inl e, w)
      | (Inr dataset, w) \<Rightarrow>
     let time_steps = read_time_steps dataset in
     (case variables_getitem dataset ''coordx'' of
        Inl e \<Rightarrow> (Inl e, w)
      | Inr x \<Rightarrow>
     (case variables_getitem dataset ''coordy'' of
        Inl e \<Rightarrow> (Inl e, w)
      | Inr y \<Rightarrow>
     let z = (case variables dataset ''coordz'' of Some c \<Rightarrow> c | None \<Rightarrow> zeros_like x) in
     (case dimensions dataset ''num_nod_var'' of
        None \<Rightarrow> (Inl (KeyError ''num_nod_var''), w)
      | Some num_nod_var \<Rightarrow>
     (case read_names dataset [0..<num_nod_var] [] of
        Inl e \<Rightarrow> (Inl e, w)
      | Inr nod_var_names \<Rightarrow>
     (case read_values dataset (enumerate 0 nod_var_names) (Map.empty, w) of
        (node_data, w1) \<Rightarrow>
     (case len x of
        Inl e \<Rightarrow> (Inl e, w1)
      | Inr num_nodes \<Rightarrow>
     let num_elements = dimensions dataset ''num_elem'';
         w2 = close file_path w1
     in (Inr \<lparr>time_steps = time_steps,
              coordinates = (x, y, z),
              nodal_data = node_data,
              nodal_vars = nod_var_names,
              mesh_shape = (num_nodes, num_elements)\<rparr>, w2))))))))"

section \<open>total\_variables\_in\_efile.py: inspect\_exodus\_file\<close>

text \<open>
  Lines 24-33: one name row with the fallback. The \<^verbatim>\<open>try\<close> block joins the decoded
  units with \<^verbatim>\<open>errors="ignore"\<close>; the \<^verbatim>\<open>except\<close> branch is the placeholder.
\<close>

definition placeholder :: "nat \<Rightarrow> string" where
  "placeholder i = ''Var_'' @ str_nat (i + 1)"

definition name_str_fallback :: "nat \<Rightarrow> name_row \<Rightarrow> string" where
  "name_str_fallback i row =
     (let name_bytes = (if is_masked row then compressed row else elements row) in
      case join_units decode_utf8_ignore name_bytes of
        Inl e \<Rightarrow> placeholder i
      | Inr s \<Rightarrow> strip s)"

definition decode_names :: "name_row list \<Rightarrow> string list" where
  "decode_names var_array = map (\<lambda>(i, row). name_str_fallback i row) (enumerate 0 var_array)"

text \<open>
  Lines 13-18 and 21-35: the name tables that are present, in insertion order, each
  replaced by its decoded names. The per-variable summary \<^verbatim>\<open>variables_info\<close> of lines
  38-46 is built under its own \<^verbatim>\<open>try\<close>/\<^verbatim>\<open>except\<close> and is not part of this embedding.
\<close>

definition user_friendly_names :: "'a dataset \<Rightarrow> (string \<times> name_row list) list" where
  "user_friendly_names dataset =
     (case name_glo_var dataset of None \<Rightarrow> [] | Some t \<Rightarrow> [(''Global Variables'', t)]) @
     (case name_nod_var dataset of None \<Rightarrow> [] | Some t \<Rightarrow> [(''Nodal Variables'', t)]) @
     (case name_elem_var dataset of None \<Rightarrow> [] | Some t \<Rightarrow> [(''Elemental Variables'', t)])"

definition inspect_exodus_file ::
  "string \<Rightarrow> 'a world \<Rightarrow> (error + (string \<times> string list) list) \<times> 'a world" where
  "inspect_exodus_file file_path w0 =
     (case Dataset file_path w0 of
        (Inl e, w) \<Rightarrow> (Inl e, w)
      | (Inr dataset, w) \<Rightarrow>
          let names = map (\<lambda>(category, var_array). (category, decode_names var_array))
                          (user_friendly_names dataset);
              w1 = close file_path w
          in (Inr names, w1))"

section \<open>Example files\<close>

text \<open>
  A name of \<open>width\<close> characters as the file stores it: the characters of the name,
  then masked padding.
\<close>

definition padded_row :: "nat \<Rightarrow> string \<Rightarrow> name_row" where
  "padded_row width s =
     map (\<lambda>c. (False, Bytes c)) s @ replicate (width - length s) (True, Bytes (CHR 0x00))"

text \<open>
  Three nodes, one element, two declared nodal variables \<^verbatim>\<open>Temp\<close> and \<^verbatim>\<open>Pressure\<close>, of
  which only \<^verbatim>\<open>vals_nod_var1\<close> is stored; no \<^verbatim>\<open>time_whole\<close> and no \<^verbatim>\<open>coordz\<close>.
\<close>

definition mesh_file :: "int dataset" where
  "mesh_file =
     \<lparr>dimensions = [''num_nodes'' \<mapsto> 3, ''num_elem'' \<mapsto> 1, ''num_nod_var'' \<mapsto> 2],
      variables = [''coordx'' \<mapsto> np_array [0, 1, 2],
                   ''coordy'' \<mapsto> np_array [0, 5, 7],
                   ''vals_nod_var1'' \<mapsto> (plain [1, 3] [10, 20, 30])],
      name_glo_var = None,
      name_nod_var = Some [padded_row 8 ''Temp'', padded_row 8 ''Pressure''],
      name_elem_var = None\<rparr>"

definition disk :: "int dataset \<Rightarrow> int world" where
  "disk ds = \<lparr>files = [''mesh.e'' \<mapsto> ds], open_handles = [], stdout = []\<rparr>"

text \<open>What reading \<open>mesh_file\<close> returns, and the world it leaves.\<close>

definition mesh_data :: "int extracted_data" where
  "mesh_data =
     \<lparr>time_steps = np_array [0],
      coordinates = (np_array [0, 1, 2], np_array [0, 5, 7], np_array [0, 0, 0]),
      nodal_data = [''Temp'' \<mapsto> (plain [1, 3] [10, 20, 30])],
      nodal_vars = [''Temp'', ''Pressure''],
      mesh_shape = (3, Some 1)\<rparr>"

definition mesh_after :: "int world" where
  "mesh_after =
     \<lparr>files = [''mesh.e'' \<mapsto> mesh_file], open_handles = [],
      stdout = [warning ''vals_nod_var2'']\<rparr>"

text \<open>Variants of \<open>mesh_file\<close>: one field removed or one name row replaced.\<close>

definition no_coordx_file :: "int dataset" where
  "no_coordx_file = mesh_file\<lparr>variables := (variables mesh_file)(''coordx'' := None)\<rparr>"

definition no_count_file :: "int dataset" where
  "no_count_file = mesh_file\<lparr>dimensions := (dimensions mesh_file)(''num_nod_var'' := None)\<rparr>"

definition zero_count_file :: "int dataset" where
  "zero_count_file = mesh_file\<lparr>dimensions := (dimensions mesh_file)(''num_nod_var'' \<mapsto> 0)\<rparr>"

definition bad_byte_row :: name_row where
  "bad_byte_row = (False, Bytes (CHR 0xFF)) # padded_row 7 ''Temp''"

definition bad_byte_file :: "int dataset" where
  "bad_byte_file = mesh_file\<lparr>name_nod_var := Some [bad_byte_row, padded_row 8 ''Pressure'']\<rparr>"

definition masked_row :: name_row where
  "masked_row = replicate 8 (True, Bytes (CHR 0x00))"

definition twin_file :: "int dataset" where
  "twin_file =
     mesh_file\<lparr>variables := (variables mesh_file)
                   (''vals_nod_var2'' \<mapsto> (plain [1, 3] [7, 8, 9])),
                name_nod_var := Some [padded_row 8 ''Temp'', padded_row 8 ''Temp'']\<rparr>"

definition twin_data :: "int extracted_data" where
  "twin_data =
     \<lparr>time_steps = np_array [0],
      coordinates = (np_array [0, 1, 2], np_array [0, 5, 7], np_array [0, 0, 0]),
      nodal_data = [''Temp'' \<mapsto> (plain [1, 3] [7, 8, 9])],
      nodal_vars = [''Temp'', ''Temp''],
      mesh_shape = (3, Some 1)\<rparr>"

text \<open>\<open>mesh_file\<close> with a stored \<^verbatim>\<open>time_whole\<close>.\<close>

definition timed_file :: "int dataset" where
  "timed_file = mesh_file\<lparr>variables := (variables mesh_file)(''time_whole'' := Some (np_array [0, 1]))\<rparr>"


text \<open>\<open>mesh_file\<close> whose second x coordinate is a missing value, and what reading it returns.\<close>

definition masked_x :: "int ndarray" where
  "masked_x = \<lparr>shape = [3], items = [0, 1, 2], mask = [False, True, False]\<rparr>"

definition masked_x_file :: "int dataset" where
  "masked_x_file = mesh_file\<lparr>variables := (variables mesh_file)(''coordx'' \<mapsto> masked_x)\<rparr>"

definition masked_x_data :: "int extracted_data" where
  "masked_x_data =
     \<lparr>time_steps = np_array [0],
      coordinates = (masked_x, np_array [0, 5, 7],
                     \<lparr>shape = [3], items = [0, 0, 0], mask = [False, True, False]\<rparr>),
      nodal_data = [''Temp'' \<mapsto> (plain [1, 3] [10, 20, 30])],
      nodal_vars = [''Temp'', ''Pressure''],
      mesh_shape = (3, Some 1)\<rparr>"

text \<open>
  Two rows named \<^verbatim>\<open>Temp\<close> of which only the first has its value array
  (\<^verbatim>\<open>vals_nod_var1\<close>) in the file, and what reading it returns.
\<close>

definition first_only_file :: "int dataset" where
  "first_only_file =
     mesh_file\<lparr>name_nod_var := Some [padded_row 8 ''Temp'', padded_row 8 ''Temp'']\<rparr>"

definition first_only_data :: "int extracted_data" where
  "first_only_data =
     \<lparr>time_steps = np_array [0],
      coordinates = (np_array [0, 1, 2], np_array [0, 5, 7], np_array [0, 0, 0]),
      nodal_data = [''Temp'' \<mapsto> (plain [1, 3] [10, 20, 30])],
      nodal_vars = [''Temp'', ''Temp''],
      mesh_shape = (3, Some 1)\<rparr>"

section \<open>Facts about the loops\<close>

lemma read_names_length:
  "read_names ds is acc = Inr names \<Longrightarrow> length names = length acc + length is"
  by (induction "is" arbitrary: acc) (auto split: sum.splits)

lemma read_exodus_file_InrE:
  assumes "read_exodus_file p w = (Inr r, w')"
  obtains ds x y N names num_nodes where
    "files w p = Some ds"
    "variables ds ''coordx'' = Some x"
    "variables ds ''coordy'' = Some y"
    "dimensions ds ''num_nod_var'' = Some N"
    "read_names ds [0..<N] [] = Inr names"
    "len x = Inr num_nodes"
    "r = \<lparr>time_steps = read_time_steps ds,
          coordinates = (x, y, case variables ds ''coordz'' of Some c \<Rightarrow> c | None \<Rightarrow> zeros_like x),
          nodal_data = fst (read_values ds (enumerate 0 names)
                              (Map.empty, w\<lparr>open_handles := p # open_handles w\<rparr>)),
          nodal_vars = names,
          mesh_shape = (num_nodes, dimensions ds ''num_elem'')\<rparr>"
    "w' = close p (snd (read_values ds (enumerate 0 names)
                              (Map.empty, w\<lparr>open_handles := p # open_handles w\<rparr>)))"
  using assms
  unfolding read_exodus_file_def Dataset_def variables_getitem_def Let_def
  by (auto split: option.splits sum.splits prod.splits)

lemma read_values_append:
  "read_values ds (ps @ qs) st = read_values ds qs (read_values ds ps st)"
proof (induction ps arbitrary: st)
  case Nil
  show ?case by (cases st) simp
next
  case (Cons a ps)
  show ?case
    by (cases st; cases a) (simp add: Let_def Cons.IH split: option.splits)
qed

lemma read_values_step:
  "read_values ds [(i, name)] (m, w) =
     (case variables ds (vals_name i) of
        Some v \<Rightarrow> (m(name \<mapsto> v), w)
      | None \<Rightarrow> (m, print (warning (vals_name i)) w))"
  by (simp add: Let_def split: option.splits)

lemma read_values_world:
  "files (snd (read_values ds ps (m, w))) = files w \<and>
   open_handles (snd (read_values ds ps (m, w))) = open_handles w"
  by (induction ps arbitrary: m w) (auto simp: Let_def print_def split: option.splits)

lemma read_values_fst_indep:
  "fst (read_values ds ps (m, w)) = fst (read_values ds ps (m, w2))"
  by (induction ps arbitrary: m w w2) (auto simp: Let_def split: option.splits)

lemma read_values_untouched:
  "(\<And>i. (i, k) \<in> set ps \<Longrightarrow> variables ds (vals_name i) = None) \<Longrightarrow>
   fst (read_values ds ps (m, w)) k = m k"
proof (induction ps arbitrary: m w)
  case Nil
  show ?case by simp
next
  case (Cons a ps)
  obtain i name where a: "a = (i, name)" by (cases a)
  have rest: "\<And>j. (j, k) \<in> set ps \<Longrightarrow> variables ds (vals_name j) = None"
    using Cons.prems by simp
  show ?case
  proof (cases "variables ds (vals_name i)")
    case None
    then show ?thesis using Cons.IH [OF rest] by (simp add: a Let_def)
  next
    case (Some v)
    then have "name \<noteq> k" using Cons.prems [of i] a by auto
    then show ?thesis using Some Cons.IH [OF rest] by (simp add: a Let_def)
  qed
qed

lemma read_values_dom:
  "k \<in> dom (fst (read_values ds ps (m, w))) \<Longrightarrow>
   k \<in> dom m \<or> (\<exists>i. (i, k) \<in> set ps \<and> variables ds (vals_name i) \<noteq> None)"
proof (induction ps arbitrary: m w)
  case Nil
  then show ?case by simp
next
  case (Cons a ps)
  obtain i name where a: "a = (i, name)" by (cases a)
  show ?case
  proof (cases "variables ds (vals_name i)")
    case None
    then show ?thesis using Cons.IH [of m "print (warning (vals_name i)) w"] Cons.prems
      by (auto simp: a Let_def)
  next
    case (Some v)
    have "k \<in> dom (fst (read_values ds ps (m(name \<mapsto> v), w)))"
      using Cons.prems Some by (simp add: a Let_def)
    from Cons.IH [OF this]
    have "k \<in> dom (m(name \<mapsto> v)) \<or>
          (\<exists>j. (j, k) \<in> set ps \<and> variables ds (vals_name j) \<noteq> None)" .
    then show ?thesis
    proof
      assume "k \<in> dom (m(name \<mapsto> v))"
      then have "k = name \<or> k \<in> dom m" by auto
      then show ?thesis
      proof
        assume "k = name"
        then have "(i, k) \<in> set (a # ps) \<and> variables ds (vals_name i) \<noteq> None"
          using Some a by simp
        then show ?thesis by blast
      next
        assume "k \<in> dom m"
        then show ?thesis by simp
      qed
    next
      assume "\<exists>j. (j, k) \<in> set ps \<and> variables ds (vals_name j) \<noteq> None"
      then show ?thesis by auto
    qed
  qed
qed


lemma enumerate_split:
  "i < length xs \<Longrightarrow>
   enumerate 0 xs = enumerate 0 (take i xs) @ (i, xs ! i) # enumerate (Suc i) (drop (Suc i) xs)"
proof -
  assume i: "i < length xs"
  have "enumerate 0 xs = enumerate 0 (take i xs @ xs ! i # drop (Suc i) xs)"
    using i by (simp add: id_take_nth_drop [symmetric])
  also have "\<dots> = enumerate 0 (take i xs) @ (i, xs ! i) # enumerate (Suc i) (drop (Suc i) xs)"
    using i by (simp add: enumerate_append_eq min_def)
  finally show ?thesis .
qed


lemma read_values_last_wins:
  assumes i: "i < length names"
    and v: "variables ds (vals_name i) = Some v"
    and later: "\<And>j. i < j \<Longrightarrow> j < length names \<Longrightarrow> names ! j = names ! i \<Longrightarrow>
                  variables ds (vals_name j) = None"
  shows "fst (read_values ds (enumerate 0 names) (m, w)) (names ! i) = Some v"
proof -
  obtain m1 w1 where s1: "read_values ds (enumerate 0 (take i names)) (m, w) = (m1, w1)"
    by (cases "read_values ds (enumerate 0 (take i names)) (m, w)")
  have post: "\<And>j. (j, names ! i) \<in> set (enumerate (Suc i) (drop (Suc i) names)) \<Longrightarrow>
                variables ds (vals_name j) = None"
  proof -
    fix j assume "(j, names ! i) \<in> set (enumerate (Suc i) (drop (Suc i) names))"
    then have "Suc i \<le> j" "j < length names" "names ! j = names ! i"
      using i by (auto simp: in_set_enumerate_eq)
    then show "variables ds (vals_name j) = None" using later [of j] by simp
  qed
  have "read_values ds (enumerate 0 names) (m, w) =
        read_values ds (enumerate (Suc i) (drop (Suc i) names)) (m1(names ! i \<mapsto> v), w1)"
    using v s1 by (simp add: enumerate_split [OF i] read_values_append Let_def)
  then show ?thesis using read_values_untouched [OF post] by simp
qed

section \<open>Evaluating the examples\<close>

lemma vals_name_0: "vals_name 0 = ''vals_nod_var1''"
  by code_simp

lemma vals_name_1: "vals_name (Suc 0) = ''vals_nod_var2''"
  by code_simp

lemma name_Temp: "name_str (padded_row 8 ''Temp'') = Inr ''Temp''"
  by code_simp

lemma name_Pressure: "name_str (padded_row 8 ''Pressure'') = Inr ''Pressure''"
  by code_simp

lemma mesh_names: "read_names mesh_file [0..<2] [] = Inr [''Temp'', ''Pressure'']"
  by code_simp

lemma mesh_vars:
  "variables mesh_file =
     [''coordx'' \<mapsto> np_array [0, 1, 2],
      ''coordy'' \<mapsto> np_array [0, 5, 7],
      ''vals_nod_var1'' \<mapsto> (plain [1, 3] [10, 20, 30])]"
  by (simp add: mesh_file_def)

lemma mesh_dims:
  "dimensions mesh_file = [''num_nodes'' \<mapsto> 3, ''num_elem'' \<mapsto> 1, ''num_nod_var'' \<mapsto> 2]"
  by (simp add: mesh_file_def)

lemma mesh_read: "read_exodus_file ''mesh.e'' (disk mesh_file) = (Inr mesh_data, mesh_after)"
  unfolding read_exodus_file_def mesh_data_def mesh_after_def
  by (simp add: Dataset_def disk_def variables_getitem_def read_time_steps_def
       mesh_vars mesh_dims mesh_names vals_name_0 vals_name_1 np_array_def plain_def zeros_like_def
       len_def close_def print_def)

section \<open>The claims\<close>

subsection \<open>C1: the handle on the failing path\<close>

text \<open>
  C1 says that the read closes the dataset handle on every exit path, also when it fails
  because a required coordinate field is missing. \<^verbatim>\<open>dataset.close()\<close> is line 44 of
  \<^verbatim>\<open>read_exodus_file\<close>, reached only when nothing before it raised: on a file without
  \<^verbatim>\<open>coordx\<close> line 17 raises \<open>KeyError\<close> and the call ends with the handle still open.
\<close>

theorem read_exodus_file_leaves_handle_open:
  "read_exodus_file ''mesh.e'' (disk no_coordx_file) =
     (Inl (KeyError ''coordx''),
      \<lparr>files = [''mesh.e'' \<mapsto> no_coordx_file], open_handles = [''mesh.e''], stdout = []\<rparr>)"
  unfolding read_exodus_file_def
  by (simp add: Dataset_def disk_def variables_getitem_def no_coordx_file_def mesh_vars)

subsection \<open>C2: a file without the dimension num\_nod\_var\<close>

text \<open>
  C2 says that a file without the dimension \<^verbatim>\<open>num_nod_var\<close> is read with a count of
  zero and an empty variable set. Line 22 subscripts \<^verbatim>\<open>dataset.dimensions\<close> without a
  guard, so the read of such a file fails with \<open>KeyError\<close>.
\<close>

theorem absent_num_nod_var_counterexample:
  "dimensions no_count_file ''num_nod_var'' = None \<and>
   fst (read_exodus_file ''mesh.e'' (disk no_count_file)) = Inl (KeyError ''num_nod_var'')"
  unfolding read_exodus_file_def
  by (simp add: Dataset_def disk_def variables_getitem_def no_count_file_def mesh_vars mesh_dims)

text \<open>
  C2 as amended: in a file that has both required coordinate fields, an absent
  \<^verbatim>\<open>num_nod_var\<close> makes the read fail with \<open>KeyError\<close> for that dimension. When the
  dimension is present and declares zero variables, the read returns the empty name list
  and the empty value mapping if \<^verbatim>\<open>len(x)\<close> is defined, and fails with the \<open>TypeError\<close>
  of line 41 if \<^verbatim>\<open>coordx\<close> is zero-dimensional.
\<close>

theorem num_nod_var_required:
  assumes "files w p = Some ds"
    and "variables ds ''coordx'' = Some x"
    and "variables ds ''coordy'' = Some y"
  shows "(dimensions ds ''num_nod_var'' = None \<longrightarrow>
            read_exodus_file p w =
              (Inl (KeyError ''num_nod_var''), w\<lparr>open_handles := p # open_handles w\<rparr>)) \<and>
         (dimensions ds ''num_nod_var'' = Some 0 \<longrightarrow>
            (case len x of
               Inr n \<Rightarrow>
                 (\<exists>r. read_exodus_file p w = (Inr r, w) \<and> nodal_vars r = [] \<and>
                      nodal_data r = Map.empty)
             | Inl e \<Rightarrow>
                 read_exodus_file p w = (Inl e, w\<lparr>open_handles := p # open_handles w\<rparr>)))"
  using assms unfolding read_exodus_file_def
  by (simp add: Dataset_def variables_getitem_def close_def split: sum.splits)

theorem num_nod_var_required_witness:
  "read_exodus_file ''mesh.e'' (disk no_count_file) =
     (Inl (KeyError ''num_nod_var''),
      disk no_count_file\<lparr>open_handles := [''mesh.e'']\<rparr>) \<and>
   dimensions zero_count_file ''num_nod_var'' = Some 0 \<and>
   nodal_vars (projr (fst (read_exodus_file ''mesh.e'' (disk zero_count_file)))) = [] \<and>
   nodal_data (projr (fst (read_exodus_file ''mesh.e'' (disk zero_count_file)))) ''Temp'' = None"
proof -
  have f1: "files (disk no_count_file) ''mesh.e'' = Some no_count_file"
    and f2: "files (disk zero_count_file) ''mesh.e'' = Some zero_count_file"
    by (simp_all add: disk_def)
  have x1: "variables no_count_file ''coordx'' = Some (np_array [0, 1, 2])"
    and y1: "variables no_count_file ''coordy'' = Some (np_array [0, 5, 7])"
    and d1: "dimensions no_count_file ''num_nod_var'' = None"
    by (simp_all add: no_count_file_def mesh_vars)
  have x2: "variables zero_count_file ''coordx'' = Some (np_array [0, 1, 2])"
    and y2: "variables zero_count_file ''coordy'' = Some (np_array [0, 5, 7])"
    and d2: "dimensions zero_count_file ''num_nod_var'' = Some 0"
    by (simp_all add: zero_count_file_def mesh_vars)
  have l: "len (np_array [0, 1, 2 :: int]) = Inr 3"
    by (simp add: len_def np_array_def plain_def)
  from num_nod_var_required [OF f1 x1 y1] d1
  have a: "read_exodus_file ''mesh.e'' (disk no_count_file) =
     (Inl (KeyError ''num_nod_var''), disk no_count_file\<lparr>open_handles := [''mesh.e'']\<rparr>)"
    by (simp add: disk_def)
  from num_nod_var_required [OF f2 x2 y2] d2 l
  have "\<exists>r. read_exodus_file ''mesh.e'' (disk zero_count_file) = (Inr r, disk zero_count_file) \<and>
          nodal_vars r = [] \<and> nodal_data r = Map.empty"
    by simp
  then obtain r where
    "read_exodus_file ''mesh.e'' (disk zero_count_file) = (Inr r, disk zero_count_file)"
    "nodal_vars r = []" "nodal_data r = Map.empty"
    by blast
  then show ?thesis using a d2 by simp
qed

subsection \<open>C3: a name row that does not decode\<close>

text \<open>
  C3 says that a row whose decoding fails becomes the placeholder \<^verbatim>\<open>Var_<i>\<close> and that
  the failure never reaches the caller. \<^verbatim>\<open>inspect_exodus_file\<close> wraps the decoding in
  \<^verbatim>\<open>try\<close>/\<^verbatim>\<open>except\<close>; \<^verbatim>\<open>read_exodus_file\<close> decodes strictly and without a handler, so
  one byte that is not valid UTF-8 in the first row ends the whole read with
  \<open>UnicodeDecodeError\<close>.
\<close>

lemma bad_names: "read_names bad_byte_file [0..<2] [] = Inl (UnicodeDecodeError (CHR 0xFF))"
  by code_simp

theorem read_exodus_file_propagates_decode_error:
  "name_nod_var_row bad_byte_file 0 = Inr bad_byte_row \<and>
   name_str bad_byte_row = Inl (UnicodeDecodeError (CHR 0xFF)) \<and>
   read_exodus_file ''mesh.e'' (disk bad_byte_file) =
     (Inl (UnicodeDecodeError (CHR 0xFF)),
      \<lparr>files = [''mesh.e'' \<mapsto> bad_byte_file], open_handles = [''mesh.e''], stdout = []\<rparr>) \<and>
   name_str_fallback 0 bad_byte_row = ''Temp''"
proof -
  have a: "name_nod_var_row bad_byte_file 0 = Inr bad_byte_row"
    by (simp add: name_nod_var_row_def bad_byte_file_def)
  have b: "name_str bad_byte_row = Inl (UnicodeDecodeError (CHR 0xFF))"
    by code_simp
  have c: "name_str_fallback 0 bad_byte_row = ''Temp''"
    by code_simp
  have v: "variables bad_byte_file = variables mesh_file"
    and d: "dimensions bad_byte_file = dimensions mesh_file"
    by (simp_all add: bad_byte_file_def)
  have e: "read_exodus_file ''mesh.e'' (disk bad_byte_file) =
     (Inl (UnicodeDecodeError (CHR 0xFF)),
      \<lparr>files = [''mesh.e'' \<mapsto> bad_byte_file], open_handles = [''mesh.e''], stdout = []\<rparr>)"
    unfolding read_exodus_file_def
    by (simp add: Dataset_def disk_def variables_getitem_def v d mesh_vars mesh_dims bad_names)
  show ?thesis using a b c e by simp
qed

subsection \<open>C4: a fully masked name row\<close>

text \<open>
  C4 says that a fully masked row decodes to a placeholder name and never raises. Neither
  reader raises on such a row, but the name is the empty string, in both of them, not the
  placeholder \<^verbatim>\<open>Var_1\<close>.
\<close>

theorem fully_masked_row_counterexample:
  "list_all fst masked_row \<and>
   name_str masked_row = Inr '''' \<and> name_str masked_row \<noteq> Inr (placeholder 0) \<and>
   name_str_fallback 0 masked_row = '''' \<and> name_str_fallback 0 masked_row \<noteq> placeholder 0 \<and>
   placeholder 0 = ''Var_1''"
  by code_simp

text \<open>
  C4 as amended: a row in which every position is masked decodes to the empty string, in
  \<^verbatim>\<open>read_exodus_file\<close> without an exception and in \<^verbatim>\<open>inspect_exodus_file\<close> without
  the fallback.
\<close>

theorem fully_masked_row_empty_name:
  assumes "list_all fst row"
  shows "name_str row = Inr '''' \<and> name_str_fallback i row = ''''"
proof -
  have none: "filter (\<lambda>c. \<not> fst c) row = []"
    using assms by (induction row) auto
  have "(if is_masked row then compressed row else elements row) = []"
  proof (cases row)
    case Nil
    then show ?thesis by (simp add: is_masked_def elements_def compressed_def)
  next
    case (Cons c cs)
    then have "is_masked row" using assms by (simp add: is_masked_def)
    then show ?thesis using none by (simp add: compressed_def)
  qed
  then show ?thesis
    by (simp add: name_str_def name_str_fallback_def strip_def)
qed

theorem fully_masked_row_empty_name_witness:
  "list_all fst masked_row \<and> name_str masked_row = Inr '''' \<and>
   name_str_fallback 0 masked_row = ''''"
proof -
  have m: "list_all fst masked_row"
    by code_simp
  from fully_masked_row_empty_name [OF m, of 0] m show ?thesis by simp
qed

subsection \<open>C5: names and value arrays correspond by position\<close>








subsection \<open>C6: the declared count bounds the result\<close>

text \<open>
  C6: when the read of a file that declares \<open>N\<close> nodal variables returns, the decoded
  name list has exactly \<open>N\<close> names and the value mapping has at most \<open>N\<close> entries, each
  under a declared name whose value array is in the file.
\<close>

theorem declared_count_bounds_result:
  assumes ok: "read_exodus_file p w = (Inr r, w')"
    and ds: "files w p = Some ds"
    and N: "dimensions ds ''num_nod_var'' = Some N"
  shows "length (nodal_vars r) = N \<and>
         finite (dom (nodal_data r)) \<and>
         card (dom (nodal_data r)) \<le> N \<and>
         (\<forall>k \<in> dom (nodal_data r).
            \<exists>i < N. nodal_vars r ! i = k \<and> variables ds (vals_name i) \<noteq> None)"
proof -
  from ok ds N obtain names where
    names: "read_names ds [0..<N] [] = Inr names"
    and nv: "nodal_vars r = names"
    and data: "nodal_data r = fst (read_values ds (enumerate 0 names)
                 (Map.empty, w\<lparr>open_handles := p # open_handles w\<rparr>))"
    by (auto elim!: read_exodus_file_InrE)
  have len: "length names = N"
    using read_names_length [OF names] by simp
  have src: "\<exists>i < N. names ! i = k \<and> variables ds (vals_name i) \<noteq> None"
    if "k \<in> dom (nodal_data r)" for k
  proof -
    have "k \<in> dom (fst (read_values ds (enumerate 0 names)
                 (Map.empty, w\<lparr>open_handles := p # open_handles w\<rparr>)))"
      using that by (simp add: data)
    from read_values_dom [OF this]
    obtain i where "(i, k) \<in> set (enumerate 0 names)" "variables ds (vals_name i) \<noteq> None"
      by auto
    then show ?thesis using len by (auto simp: in_set_enumerate_eq)
  qed
  then have sub: "dom (nodal_data r) \<subseteq> set names"
    using len by (metis nth_mem subsetI)
  have fin: "finite (dom (nodal_data r))"
    using sub by (rule finite_subset) simp
  have "card (dom (nodal_data r)) \<le> card (set names)"
    using sub by (intro card_mono) simp_all
  also have "\<dots> \<le> length names" by (rule card_length)
  finally have "card (dom (nodal_data r)) \<le> N" using len by simp
  then show ?thesis using len nv fin src by auto
qed

theorem declared_count_bounds_result_witness:
  "read_exodus_file ''mesh.e'' (disk mesh_file) = (Inr mesh_data, mesh_after) \<and>
   dimensions mesh_file ''num_nod_var'' = Some 2 \<and>
   length (nodal_vars mesh_data) = 2 \<and> card (dom (nodal_data mesh_data)) \<le> 2"
proof -
  have f: "files (disk mesh_file) ''mesh.e'' = Some mesh_file"
    by (simp add: disk_def)
  have d: "dimensions mesh_file ''num_nod_var'' = Some 2"
    by (simp add: mesh_dims)
  from declared_count_bounds_result [OF mesh_read f d] mesh_read d
  show ?thesis by simp
qed

subsection \<open>C7: reading twice\<close>

text \<open>What a read returns depends on the files only, not on the handles or the output.\<close>

lemma read_exodus_file_fst_cong:
  assumes "files w = files w2"
  shows "fst (read_exodus_file p w) = fst (read_exodus_file p w2)"
proof (cases "files w p")
  case None
  then show ?thesis using assms by (simp add: read_exodus_file_def Dataset_def)
next
  case (Some ds)
  have "fst (read_values ds ps (Map.empty, w\<lparr>open_handles := p # open_handles w\<rparr>)) =
        fst (read_values ds ps (Map.empty, w2\<lparr>open_handles := p # open_handles w2\<rparr>))" for ps
    by (rule read_values_fst_indep)
  then show ?thesis using Some assms
    unfolding read_exodus_file_def
    by (simp add: Dataset_def Let_def case_prod_beta split: sum.splits option.splits)
qed

text \<open>
  C7: a read that returns leaves the files on disk and the set of open handles as they
  were, and a second read of the same path, in the world the first one left, returns the
  same extracted data.
\<close>

theorem read_twice_identical:
  assumes ok: "read_exodus_file p w = (Inr r, w')"
  shows "files w' = files w \<and> open_handles w' = open_handles w \<and>
         fst (read_exodus_file p w') = Inr r"
proof -
  from ok have w': "files w' = files w" "open_handles w' = open_handles w"
    by (auto elim!: read_exodus_file_InrE simp: close_def read_values_world)
  have "fst (read_exodus_file p w') = fst (read_exodus_file p w)"
    using w'(1) by (rule read_exodus_file_fst_cong)
  then show ?thesis using ok w' by simp
qed

theorem read_twice_identical_witness:
  "read_exodus_file ''mesh.e'' (disk mesh_file) = (Inr mesh_data, mesh_after) \<and>
   files mesh_after = files (disk mesh_file) \<and>
   open_handles mesh_after = open_handles (disk mesh_file) \<and>
   fst (read_exodus_file ''mesh.e'' mesh_after) = Inr mesh_data"
  using read_twice_identical [OF mesh_read] mesh_read by simp

subsection \<open>C8: the default time step\<close>

text \<open>
  The loops look at the name table and at the fields \<^verbatim>\<open>vals_nod_var<k>\<close> only, so a
  change of \<^verbatim>\<open>time_whole\<close> does not reach them.
\<close>

lemma vals_name_not_time_whole: "vals_name i \<noteq> ''time_whole''"
  by (simp add: vals_name_def)

lemma read_names_cong:
  "name_nod_var ds' = name_nod_var ds \<Longrightarrow> read_names ds' is acc = read_names ds is acc"
  by (induction "is" arbitrary: acc)
     (auto simp: name_nod_var_row_def split: sum.splits option.splits)

lemma read_values_cong:
  assumes "\<And>i. variables ds' (vals_name i) = variables ds (vals_name i)"
  shows "read_values ds' ps st = read_values ds ps st"
proof (induction ps arbitrary: st)
  case Nil
  show ?case by (cases st) simp
next
  case (Cons a ps)
  show ?case
    by (cases st; cases a) (simp add: Let_def Cons.IH assms split: option.splits)
qed

text \<open>
  C8: when \<^verbatim>\<open>time_whole\<close> is absent, the time steps of the returned data are the one
  element array \<open>[0]\<close>. The time-step read never errors: whether the whole read returns,
  and with which error it fails, is the same whatever the file holds at \<^verbatim>\<open>time_whole\<close>,
  nothing or any array.
\<close>

theorem time_steps_default:
  assumes ds: "files w p = Some ds"
  shows "(variables ds ''time_whole'' = None \<longrightarrow>
            (\<forall>r w'. read_exodus_file p w = (Inr r, w') \<longrightarrow>
               time_steps r = np_array [0] \<and> shape (time_steps r) = [1] \<and>
               items (time_steps r) = [0])) \<and>
         (\<forall>tv. map_sum id (\<lambda>r. ())
                 (fst (read_exodus_file p
                    (w\<lparr>files := (files w)(p \<mapsto> ds\<lparr>variables := (variables ds)(''time_whole'' := tv)\<rparr>)\<rparr>))) =
               map_sum id (\<lambda>r. ()) (fst (read_exodus_file p w)))"
proof (intro conjI impI allI)
  fix r w'
  assume none: "variables ds ''time_whole'' = None"
    and ok: "read_exodus_file p w = (Inr r, w')"
  from ok ds have "time_steps r = read_time_steps ds"
    by (auto elim!: read_exodus_file_InrE)
  then have t: "time_steps r = np_array [0]"
    using none by (simp add: read_time_steps_def)
  then show "time_steps r = np_array [0]" "shape (time_steps r) = [1]" "items (time_steps r) = [0]"
    by (simp_all add: np_array_def plain_def)
next
  fix tv
  define ds' where "ds' = ds\<lparr>variables := (variables ds)(''time_whole'' := tv)\<rparr>"
  have v: "variables ds' k = variables ds k" if "k \<noteq> ''time_whole''" for k
    using that by (simp add: ds'_def)
  have d: "dimensions ds' = dimensions ds" and n: "name_nod_var ds' = name_nod_var ds"
    by (simp_all add: ds'_def)
  have rn: "read_names ds' is acc = read_names ds is acc" for "is" acc
    using n by (rule read_names_cong)
  have rv: "read_values ds' ps st = read_values ds ps st" for ps st
    by (rule read_values_cong) (simp add: v vals_name_not_time_whole)
  have "map_sum id (\<lambda>r. ()) (fst (read_exodus_file p (w\<lparr>files := (files w)(p \<mapsto> ds')\<rparr>))) =
        map_sum id (\<lambda>r. ()) (fst (read_exodus_file p w))"
    using ds unfolding read_exodus_file_def
    by (simp add: Dataset_def Let_def case_prod_beta variables_getitem_def v d rn rv
          read_values_fst_indep [of _ _ _ "w\<lparr>files := (files w)(p \<mapsto> ds'), open_handles := p # open_handles w\<rparr>" "w\<lparr>open_handles := p # open_handles w\<rparr>"]
          split: sum.splits option.splits)
  then show "map_sum id (\<lambda>r. ())
                 (fst (read_exodus_file p
                    (w\<lparr>files := (files w)(p \<mapsto> ds\<lparr>variables := (variables ds)(''time_whole'' := tv)\<rparr>)\<rparr>))) =
               map_sum id (\<lambda>r. ()) (fst (read_exodus_file p w))"
    by (simp add: ds'_def)
qed

theorem time_steps_default_witness:
  "read_exodus_file ''mesh.e'' (disk mesh_file) = (Inr mesh_data, mesh_after) \<and>
   variables mesh_file ''time_whole'' = None \<and>
   items (time_steps mesh_data) = [0] \<and>
   map_sum id (\<lambda>r. ()) (fst (read_exodus_file ''mesh.e'' (disk timed_file))) = Inr ()"
proof -
  have f: "files (disk mesh_file) ''mesh.e'' = Some mesh_file"
    by (simp add: disk_def)
  have none: "variables mesh_file ''time_whole'' = None"
    by (simp add: mesh_vars)
  have w: "disk mesh_file\<lparr>files := (files (disk mesh_file))(''mesh.e'' \<mapsto>
             mesh_file\<lparr>variables := (variables mesh_file)(''time_whole'' := Some (np_array [0, 1]))\<rparr>)\<rparr> =
           disk timed_file"
    by (simp add: disk_def timed_file_def)
  note t = time_steps_default [OF f]
  from t none mesh_read have a: "items (time_steps mesh_data) = [0]"
    by blast
  from t have
    "map_sum id (\<lambda>r. ()) (fst (read_exodus_file ''mesh.e''
        (disk mesh_file\<lparr>files := (files (disk mesh_file))(''mesh.e'' \<mapsto>
             mesh_file\<lparr>variables := (variables mesh_file)(''time_whole'' := Some (np_array [0, 1]))\<rparr>)\<rparr>))) =
     map_sum id (\<lambda>r. ()) (fst (read_exodus_file ''mesh.e'' (disk mesh_file)))"
    by blast
  then have b: "map_sum id (\<lambda>r. ()) (fst (read_exodus_file ''mesh.e'' (disk timed_file))) = Inr ()"
    by (simp add: w mesh_read)
  show ?thesis using mesh_read none a b by simp
qed

subsection \<open>C9: the default z coordinates\<close>

lemma masked_x_vars:
  "variables masked_x_file =
     [''coordx'' \<mapsto> masked_x,
      ''coordy'' \<mapsto> np_array [0, 5, 7],
      ''vals_nod_var1'' \<mapsto> (plain [1, 3] [10, 20, 30])]"
  by (simp add: masked_x_file_def mesh_vars fun_eq_iff)

lemma masked_x_names: "read_names masked_x_file [0..<2] [] = Inr [''Temp'', ''Pressure'']"
  by code_simp

lemma masked_x_dims: "dimensions masked_x_file = dimensions mesh_file"
  by (simp add: masked_x_file_def)

lemma masked_x_read:
  "fst (read_exodus_file ''mesh.e'' (disk masked_x_file)) = Inr masked_x_data"
  unfolding read_exodus_file_def masked_x_data_def
  by (simp add: Dataset_def disk_def variables_getitem_def read_time_steps_def
       masked_x_vars masked_x_dims mesh_dims masked_x_names vals_name_0 vals_name_1
       masked_x_def zeros_like_def len_def close_def print_def)

text \<open>
  C9 says that without \<^verbatim>\<open>coordz\<close> every element of the returned z array is zero.
  \<^verbatim>\<open>np.zeros_like(x)\<close> keeps the mask of x: where an x coordinate is a missing value
  the element of z is masked, not zero.
\<close>

theorem coordz_default_counterexample:
  "variables masked_x_file ''coordz'' = None \<and>
   variables masked_x_file ''coordx'' = Some masked_x \<and>
   tolist masked_x = [Some 0, None, Some 2] \<and>
   fst (read_exodus_file ''mesh.e'' (disk masked_x_file)) = Inr masked_x_data \<and>
   tolist (snd (snd (coordinates masked_x_data))) = [Some 0, None, Some 0]"
proof -
  have "variables masked_x_file ''coordz'' = None"
    "variables masked_x_file ''coordx'' = Some masked_x"
    by (simp_all add: masked_x_vars)
  moreover have "tolist masked_x = [Some 0, None, Some 2]"
    by (simp add: tolist_def masked_x_def)
  moreover have "tolist (snd (snd (coordinates masked_x_data))) = [Some 0, None, Some 0]"
    by (simp add: tolist_def masked_x_data_def)
  ultimately show ?thesis using masked_x_read by simp
qed

text \<open>
  C9 as amended: when \<^verbatim>\<open>coordz\<close> is absent and the read returns, the returned z array
  is \<^verbatim>\<open>np.zeros_like(x)\<close> of the x array of the file: it has the length, the shape and
  the mask of x and all its data are zero, so every element of z is zero or masked, and
  every element is zero when x has no masked element.
\<close>

theorem coordz_default:
  assumes ok: "read_exodus_file p w = (Inr r, w')"
    and ds: "files w p = Some ds"
    and none: "variables ds ''coordz'' = None"
  shows "let x = fst (coordinates r); z = snd (snd (coordinates r))
         in variables ds ''coordx'' = Some x \<and> z = zeros_like x \<and>
            len z = len x \<and> shape z = shape x \<and>
            length (items z) = length (items x) \<and>
            mask z = mask x \<and> length (tolist z) = length (tolist x) \<and>
            (\<forall>v \<in> set (items z). v = 0) \<and>
            (\<forall>e \<in> set (tolist z). e = None \<or> e = Some 0) \<and>
            (\<not> list_ex id (mask x) \<longrightarrow> (\<forall>e \<in> set (tolist z). e = Some 0))"
proof -
  from ok ds none obtain x y where
    x: "variables ds ''coordx'' = Some x" and c: "coordinates r = (x, y, zeros_like x)"
    by (auto elim!: read_exodus_file_InrE)
  have elems: "e = None \<or> e = Some 0" if "e \<in> set (tolist (zeros_like x))" for e
  proof -
    from that obtain m v where
      mv: "(m, v) \<in> set (zip (mask x) (map (\<lambda>_. 0) (items x)))"
      and e: "e = (if m then None else Some v)"
      by (auto simp: tolist_def zeros_like_def)
    from mv have "v = 0"
      by (auto dest: set_zip_rightD)
    then show ?thesis using e by simp
  qed
  have unmasked: "e = Some 0"
    if "\<not> list_ex id (mask x)" "e \<in> set (tolist (zeros_like x))" for e
  proof -
    from that(2) obtain m v where
      mv: "(m, v) \<in> set (zip (mask x) (map (\<lambda>_. 0) (items x)))"
      and e: "e = (if m then None else Some v)"
      by (auto simp: tolist_def zeros_like_def)
    from mv have "m \<in> set (mask x)" "v = 0"
      by (auto dest: set_zip_leftD set_zip_rightD)
    then show ?thesis using that(1) e by (auto simp: list_ex_iff)
  qed
  show ?thesis
    using x c elems unmasked
    by (auto simp: Let_def zeros_like_def len_def tolist_def)
qed

theorem coordz_default_witness:
  "read_exodus_file ''mesh.e'' (disk mesh_file) = (Inr mesh_data, mesh_after) \<and>
   variables mesh_file ''coordz'' = None \<and>
   fst (coordinates mesh_data) = np_array [0, 1, 2] \<and>
   snd (snd (coordinates mesh_data)) = np_array [0, 0, 0] \<and>
   len (snd (snd (coordinates mesh_data))) = len (fst (coordinates mesh_data)) \<and>
   mask (snd (snd (coordinates mesh_data))) = mask (fst (coordinates mesh_data))"
proof -
  have f: "files (disk mesh_file) ''mesh.e'' = Some mesh_file"
    by (simp add: disk_def)
  have none: "variables mesh_file ''coordz'' = None"
    by (simp add: mesh_vars)
  have x: "variables mesh_file ''coordx'' = Some (np_array [0, 1, 2])"
    by (simp add: mesh_vars)
  note c = coordz_default [OF mesh_read f none, unfolded Let_def]
  from c x have cx: "fst (coordinates mesh_data) = np_array [0, 1, 2]"
    by simp
  from c have cz: "snd (snd (coordinates mesh_data)) = zeros_like (fst (coordinates mesh_data))"
    and cl: "len (snd (snd (coordinates mesh_data))) = len (fst (coordinates mesh_data))"
    and cm: "mask (snd (snd (coordinates mesh_data))) = mask (fst (coordinates mesh_data))"
    by blast+
  have "zeros_like (np_array [0, 1, 2 :: int]) = np_array [0, 0, 0]"
    by (simp add: zeros_like_def np_array_def plain_def)
  then show ?thesis using mesh_read none cx cz cl cm
    by simp
qed

subsection \<open>C10: two rows with the same name\<close>

lemma twin_names: "read_names twin_file [0..<2] [] = Inr [''Temp'', ''Temp'']"
  by code_simp

lemma twin_vars:
  "variables twin_file =
     [''coordx'' \<mapsto> np_array [0, 1, 2],
      ''coordy'' \<mapsto> np_array [0, 5, 7],
      ''vals_nod_var1'' \<mapsto> (plain [1, 3] [10, 20, 30]),
      ''vals_nod_var2'' \<mapsto> (plain [1, 3] [7, 8, 9])]"
  by (simp add: twin_file_def mesh_vars)

lemma twin_dims: "dimensions twin_file = dimensions mesh_file"
  by (simp add: twin_file_def)

lemma twin_read:
  "read_exodus_file ''mesh.e'' (disk twin_file) = (Inr twin_data, disk twin_file)"
  unfolding read_exodus_file_def twin_data_def
  by (simp add: Dataset_def disk_def variables_getitem_def read_time_steps_def
       twin_vars twin_names vals_name_0 vals_name_1 np_array_def plain_def zeros_like_def
       len_def close_def twin_dims mesh_dims)

lemma first_only_names: "read_names first_only_file [0..<2] [] = Inr [''Temp'', ''Temp'']"
  by code_simp

lemma first_only_vars: "variables first_only_file = variables mesh_file"
  and first_only_dims: "dimensions first_only_file = dimensions mesh_file"
  by (simp_all add: first_only_file_def)

lemma first_only_read:
  "fst (read_exodus_file ''mesh.e'' (disk first_only_file)) = Inr first_only_data"
  unfolding read_exodus_file_def first_only_data_def
  by (simp add: Dataset_def disk_def variables_getitem_def read_time_steps_def
       first_only_vars first_only_dims mesh_vars mesh_dims first_only_names
       vals_name_0 vals_name_1 np_array_def plain_def zeros_like_def len_def close_def print_def)

text \<open>
  C10 says that of two rows with the same name the mapping keeps the array of the later
  one. The later position overwrites the entry only if its own value array is in the
  file: with two rows \<^verbatim>\<open>Temp\<close> and only \<^verbatim>\<open>vals_nod_var1\<close> stored, the mapping keeps the
  array of the earlier variable.
\<close>

theorem duplicate_name_counterexample:
  "fst (read_exodus_file ''mesh.e'' (disk first_only_file)) = Inr first_only_data \<and>
   nodal_vars first_only_data = [''Temp'', ''Temp''] \<and>
   variables first_only_file (vals_name 0) = Some (plain [1, 3] [10, 20, 30]) \<and>
   variables first_only_file (vals_name (Suc 0)) = None \<and>
   nodal_data first_only_data ''Temp'' = variables first_only_file (vals_name 0) \<and>
   nodal_data first_only_data ''Temp'' \<noteq> variables first_only_file (vals_name (Suc 0))"
proof -
  have "nodal_vars first_only_data = [''Temp'', ''Temp'']"
    "nodal_data first_only_data ''Temp'' = Some (plain [1, 3] [10, 20, 30])"
    by (simp_all add: first_only_data_def)
  moreover have "variables first_only_file (vals_name 0) = Some (plain [1, 3] [10, 20, 30])"
    "variables first_only_file (vals_name (Suc 0)) = None"
    by (simp_all add: first_only_vars mesh_vars vals_name_0 vals_name_1)
  ultimately show ?thesis using first_only_read by simp
qed

text \<open>
  C10 as amended: when the rows at \<open>i\<close> and at a later \<open>j\<close> decode to the same string,
  the returned mapping has strictly fewer entries than there are declared variables,
  also when every value array is present. Under that string it holds the array of the
  last position with that name whose value array is in the file (the last stored write
  wins). So when \<open>j\<close> is the last position of the name and its array is stored, the
  mapping holds the array of \<open>j\<close>, and the array of \<open>i\<close>, when it differs, is not what
  the name of \<open>i\<close> is bound to.
\<close>

theorem duplicate_name_last_wins:
  assumes ok: "read_exodus_file p w = (Inr r, w')"
    and ds: "files w p = Some ds"
    and ij: "i < j" "j < length (nodal_vars r)"
    and same: "nodal_vars r ! i = nodal_vars r ! j"
  shows "card (dom (nodal_data r)) < length (nodal_vars r) \<and>
         (\<forall>k v. k < length (nodal_vars r) \<and> nodal_vars r ! k = nodal_vars r ! i \<and>
                variables ds (vals_name k) = Some v \<and>
                (\<forall>l. k < l \<and> l < length (nodal_vars r) \<and> nodal_vars r ! l = nodal_vars r ! i \<longrightarrow>
                     variables ds (vals_name l) = None) \<longrightarrow>
                nodal_data r (nodal_vars r ! i) = Some v) \<and>
         (\<forall>vj. variables ds (vals_name j) = Some vj \<and>
               nodal_vars r ! j \<notin> set (drop (Suc j) (nodal_vars r)) \<longrightarrow>
               nodal_data r (nodal_vars r ! i) = Some vj \<and>
               (variables ds (vals_name i) \<noteq> Some vj \<longrightarrow>
                  nodal_data r (nodal_vars r ! i) \<noteq> variables ds (vals_name i)))"
proof -
  define names where "names = nodal_vars r"
  from ok ds have data: "nodal_data r = fst (read_values ds (enumerate 0 names)
                 (Map.empty, w\<lparr>open_handles := p # open_handles w\<rparr>))"
    by (auto elim!: read_exodus_file_InrE simp: names_def)
  have j: "j < length names" and eq: "names ! i = names ! j"
    using ij same by (simp_all add: names_def)
  have stored: "nodal_data r (names ! i) = Some v"
    if k: "k < length names" "names ! k = names ! i" "variables ds (vals_name k) = Some v"
      and later: "\<forall>l. k < l \<and> l < length names \<and> names ! l = names ! i \<longrightarrow>
                    variables ds (vals_name l) = None"
    for k v
  proof -
    have "fst (read_values ds (enumerate 0 names)
       (Map.empty, w\<lparr>open_handles := p # open_handles w\<rparr>)) (names ! k) = Some v"
      using later k(2) by (intro read_values_last_wins [OF k(1) k(3)]) auto
    then show ?thesis by (simp add: data k(2))
  qed
  have last: "nodal_data r (names ! i) = Some vj"
    if vj: "variables ds (vals_name j) = Some vj"
      and nolater: "names ! j \<notin> set (drop (Suc j) names)" for vj
  proof -
    have "names ! l \<noteq> names ! j" if "j < l" "l < length names" for l
    proof -
      have "names ! l = drop (Suc j) names ! (l - Suc j)" using that by simp
      moreover have "l - Suc j < length (drop (Suc j) names)" using that by simp
      ultimately have "names ! l \<in> set (drop (Suc j) names)" by (metis nth_mem)
      then show ?thesis using nolater by auto
    qed
    then have "\<forall>l. j < l \<and> l < length names \<and> names ! l = names ! i \<longrightarrow>
                 variables ds (vals_name l) = None"
      using eq by auto
    then show ?thesis using stored [OF j eq [symmetric] vj] by blast
  qed
  have sub: "dom (nodal_data r) \<subseteq> set names"
  proof
    fix k assume "k \<in> dom (nodal_data r)"
    then have "k \<in> dom (fst (read_values ds (enumerate 0 names)
                 (Map.empty, w\<lparr>open_handles := p # open_handles w\<rparr>)))"
      by (simp add: data)
    from read_values_dom [OF this]
    obtain n where "(n, k) \<in> set (enumerate 0 names)" by auto
    then show "k \<in> set names" by (auto simp: in_set_enumerate_eq)
  qed
  have "i < length names" "i \<noteq> j"
    using ij(1) j by simp_all
  then have "\<not> distinct names"
    using j eq nth_eq_iff_index_eq [of names i j] by blast
  then have "card (set names) \<noteq> length names"
    using card_distinct by blast
  then have "card (set names) < length names"
    using card_length [of names] by simp
  moreover have "card (dom (nodal_data r)) \<le> card (set names)"
    using sub by (intro card_mono) simp_all
  ultimately have fewer: "card (dom (nodal_data r)) < length names" by simp
  have "card (dom (nodal_data r)) < length names \<and>
         (\<forall>k v. k < length names \<and> names ! k = names ! i \<and>
                variables ds (vals_name k) = Some v \<and>
                (\<forall>l. k < l \<and> l < length names \<and> names ! l = names ! i \<longrightarrow>
                     variables ds (vals_name l) = None) \<longrightarrow>
                nodal_data r (names ! i) = Some v) \<and>
         (\<forall>vj. variables ds (vals_name j) = Some vj \<and>
               names ! j \<notin> set (drop (Suc j) names) \<longrightarrow>
               nodal_data r (names ! i) = Some vj \<and>
               (variables ds (vals_name i) \<noteq> Some vj \<longrightarrow>
                  nodal_data r (names ! i) \<noteq> variables ds (vals_name i)))"
    using fewer stored last by auto
  then show ?thesis unfolding names_def .
qed

theorem duplicate_name_last_wins_witness:
  "read_exodus_file ''mesh.e'' (disk twin_file) = (Inr twin_data, disk twin_file) \<and>
   nodal_vars twin_data = [''Temp'', ''Temp''] \<and>
   variables twin_file ''vals_nod_var1'' = Some (plain [1, 3] [10, 20, 30]) \<and>
   variables twin_file ''vals_nod_var2'' = Some (plain [1, 3] [7, 8, 9]) \<and>
   nodal_data twin_data ''Temp'' = Some (plain [1, 3] [7, 8, 9]) \<and>
   card (dom (nodal_data twin_data)) < 2"
proof -
  have f: "files (disk twin_file) ''mesh.e'' = Some twin_file"
    by (simp add: disk_def)
  have nv: "nodal_vars twin_data = [''Temp'', ''Temp'']"
    by (simp add: twin_data_def)
  have v1: "variables twin_file ''vals_nod_var1'' = Some (plain [1, 3] [10, 20, 30])"
    and v2: "variables twin_file (vals_name (Suc 0)) = Some (plain [1, 3] [7, 8, 9])"
    by (simp_all add: twin_vars vals_name_1)
  have ij: "0 < Suc 0" "Suc 0 < length (nodal_vars twin_data)"
    and same: "nodal_vars twin_data ! 0 = nodal_vars twin_data ! Suc 0"
    and last: "nodal_vars twin_data ! Suc 0 \<notin> set (drop (Suc (Suc 0)) (nodal_vars twin_data))"
    by (simp_all add: nv)
  note t = duplicate_name_last_wins [OF twin_read f ij same]
  from t have "card (dom (nodal_data twin_data)) < length (nodal_vars twin_data)"
    by blast
  then have c: "card (dom (nodal_data twin_data)) < 2"
    by (simp add: nv)
  from t v2 last have "nodal_data twin_data (nodal_vars twin_data ! 0) = Some (plain [1, 3] [7, 8, 9])"
    by blast
  then have "nodal_data twin_data ''Temp'' = Some (plain [1, 3] [7, 8, 9])"
    by (simp add: nv)
  then show ?thesis using twin_read nv v1 v2 c by (simp add: vals_name_1)
qed

end
